theory Spec2Isabelle
  imports Complex_Main
begin

section \<open>Values exchanged with the outside world\<close>

text \<open>
  The controller (src/unnamed/part_000) talks to three collaborators: the catalog API
  through \<open>axios.get\<close>, the Movie and Show collections through Mongoose, and the clock
  through \<open>new Date()\<close>. Each of them is an input of the model; every value the
  controller computes from their answers is computed here by a definition that follows
  the source line by line.
\<close>

text \<open>A JavaScript \<open>Error\<close>: the handlers only ever read its \<open>message\<close>.\<close>

datatype error_kind = HttpError | TypeError | DuplicateKey | StorageError | ValidationError

record error =
  kind :: error_kind
  message :: string

text \<open>An opaque JSON value, for the properties the controller copies without looking at them.\<close>

datatype json =
    JNull
  | JBool bool
  | JNum rat
  | JStr string
  | JArr "json list"
  | JObj "(string \<times> json) list"

text \<open>
  The \<open>data\<close> object of a catalog response, with the properties the controller reads
  (spec section 6). A property that the response does not carry is \<open>None\<close>
  (JavaScript's \<open>undefined\<close>). \<open>tagline\<close> is the one property whose value is inspected;
  upstream it is an optional string.
\<close>

record response_data =
  api_results :: "json option"
  api_title :: "json option"
  api_overview :: "json option"
  api_poster_path :: "json option"
  api_backdrop_path :: "json option"
  api_genres :: "json option"
  api_casts :: "json option"
  api_release_date :: "json option"
  api_original_language :: "json option"
  api_tagline :: "string option"
  api_vote_average :: "json option"
  api_runtime :: "json option"

record response =
  data :: response_data

section \<open>fetchWithRetry\<close>

definition TMDB_TIMEOUT :: nat where
  "TMDB_TIMEOUT = 15000"

definition MAX_RETRIES :: int where
  "MAX_RETRIES = 3"

definition RETRY_DELAY :: nat where
  "RETRY_DELAY = 1000"

text \<open>
  What one call of \<open>fetchWithRetry\<close> does, in order: a request, the diagnostic line
  (attempt number, delay, url) and the timer it waits on.
\<close>

datatype event =
    Get string
  | Log nat nat string
  | Sleep nat

text \<open>
  The loop \<open>for (let i = 0; i < retries; i++)\<close>, entered at index \<open>i\<close>. The first
  argument is the behaviour of \<open>axios.get(url, axiosConfig)\<close> at the \<open>i\<close>-th attempt of
  this call: a response, or the error it rejects with. The result is what the async
  function settles to (\<open>Inl\<close>: it throws; \<open>Inr None\<close>: it falls out of the loop and returns
  \<open>undefined\<close>) and its events.
\<close>

function fetchWithRetry_from ::
  "(string \<Rightarrow> nat \<Rightarrow> error + response) \<Rightarrow> string \<Rightarrow> int \<Rightarrow> nat
     \<Rightarrow> (error + response option) \<times> event list" where
  "fetchWithRetry_from axios_get url retries i =
     (if int i < retries then
        (case axios_get url i of
           Inr r \<Rightarrow> (Inr (Some r), [Get url])
         | Inl e \<Rightarrow>
             if int i = retries - 1 then (Inl e, [Get url])
             else
               (case fetchWithRetry_from axios_get url retries (Suc i) of
                  (res, evs) \<Rightarrow>
                    (res, Get url # Log (i + 1) (RETRY_DELAY * 2 ^ i) url
                            # Sleep (RETRY_DELAY * 2 ^ i) # evs)))
      else (Inr None, []))"
  by pat_completeness auto
termination
  by (relation "measure (\<lambda>(axios_get, url, retries, i). nat (retries - int i))") auto

definition fetchWithRetry ::
  "(string \<Rightarrow> nat \<Rightarrow> error + response) \<Rightarrow> string \<Rightarrow> int
     \<Rightarrow> (error + response option) \<times> event list" where
  "fetchWithRetry axios_get url retries = fetchWithRetry_from axios_get url retries 0"

text \<open>The requests among the events of a call.\<close>

fun is_Get :: "event \<Rightarrow> bool" where
  "is_Get (Get u) = True"
| "is_Get (Log a d u) = False"
| "is_Get (Sleep d) = False"

fun sleeps :: "event list \<Rightarrow> nat list" where
  "sleeps [] = []"
| "sleeps (Sleep d # evs) = d # sleeps evs"
| "sleeps (Get u # evs) = sleeps evs"
| "sleeps (Log a d u # evs) = sleeps evs"

section \<open>Documents and storage\<close>

text \<open>
  The object literal \<open>movieDetails\<close> of \<open>addShow\<close> and the Movie document it becomes.
  \<open>movie_id\<close> is the property \<open>_id\<close>.
\<close>

record movie =
  movie_id :: string
  title :: "json option"
  overview :: "json option"
  poster_path :: "json option"
  backdrop_path :: "json option"
  genres :: "json option"
  casts :: "json option"
  release_date :: "json option"
  original_language :: "json option"
  tagline :: string
  vote_average :: "json option"
  runtime :: "json option"

text \<open>
  The object literal pushed onto \<open>showsToCreate\<close>. A JavaScript \<open>Date\<close> is its time value
  in milliseconds since the epoch; \<open>new Date(string)\<close> of a string that does not parse is
  the Invalid Date, \<open>None\<close>. A stored Show carries a valid instant and its \<open>_id\<close>.
\<close>

record 'd show_doc =
  movie :: string
  showDateTime :: 'd
  showPrice :: rat
  occupiedSeats :: "(string \<times> string) list"

record "show" = "int show_doc" +
  show_id :: nat

record db =
  movies :: "movie list"
  "shows" :: "show list"
  next_show_id :: nat

datatype storage_call = Movie_findById_call | Movie_create_call | Show_insertMany_call | Show_find_call

text \<open>
  Everything outside the controller that a request depends on:
  the catalog's answer to the \<open>i\<close>-th attempt on a url; which of two rejected fetches
  rejected first (\<open>Promise.all\<close> rejects with that one); the built-in date parser and the
  clock; a storage call that rejects (connection lost, say); and the Movie documents
  that other requests create while this one awaits the catalog.
\<close>

record env =
  axios_get :: "string \<Rightarrow> nat \<Rightarrow> error + response"
  credits_rejects_first :: bool
  Date_new :: "string \<Rightarrow> int option"
  now :: int
  storage_fault :: "storage_call \<Rightarrow> error option"
  concurrent_creates :: "movie list"

text \<open>
  The models models/Movie.js and models/Show.js are not among the sources; the storage
  operations the controller calls are modelled from the spec. A call rejects with the
  error of \<open>storage_fault\<close> when storage is at fault.
\<close>

text \<open>
  Modelled from the spec: \<open>Movie.findById\<close> of the missing models/Movie.js. Section 3
  makes the external identifier the primary key; the lookup returns the Movie stored
  under it, or \<open>null\<close>.
\<close>

definition Movie_findById :: "env \<Rightarrow> db \<Rightarrow> string \<Rightarrow> error + movie option" where
  "Movie_findById env d movieId =
     (case storage_fault env Movie_findById_call of
        Some e \<Rightarrow> Inl e
      | None \<Rightarrow> Inr (find (\<lambda>m. movie_id m = movieId) (movies d)))"

text \<open>
  Modelled from the spec: \<open>Movie.create\<close> of the missing models/Movie.js. Section 4.2
  has the normalized Movie persisted as it is, and a create under a key that is taken
  rejected for primary-key uniqueness.
\<close>

definition duplicate_key :: error where
  "duplicate_key = \<lparr>kind = DuplicateKey, message = ''E11000 duplicate key error''\<rparr>"

definition Movie_create :: "env \<Rightarrow> db \<Rightarrow> movie \<Rightarrow> error + movie \<times> db" where
  "Movie_create env d doc =
     (case storage_fault env Movie_create_call of
        Some e \<Rightarrow> Inl e
      | None \<Rightarrow>
          if movie_id doc \<in> set (map movie_id (movies d)) then Inl duplicate_key
          else Inr (doc, d\<lparr>movies := movies d @ [doc]\<rparr>))"

text \<open>
  Modelled from the spec: \<open>Show.insertMany\<close> of the missing models/Show.js. Section 4.3
  has the Shows of one request inserted in one bulk insert, all or none, a slot whose
  instant does not parse being a creation error; storage gives each Show its \<open>_id\<close>.
\<close>

definition cast_failed :: error where
  "cast_failed = \<lparr>kind = ValidationError, message = ''Show validation failed: showDateTime''\<rparr>"

fun stored :: "nat \<Rightarrow> int option show_doc list \<Rightarrow> show list" where
  "stored n [] = []"
| "stored n (doc # docs) =
     \<lparr>movie = movie doc, showDateTime = the (showDateTime doc), showPrice = showPrice doc,
      occupiedSeats = occupiedSeats doc, show_id = n\<rparr> # stored (Suc n) docs"

definition Show_insertMany :: "env \<Rightarrow> db \<Rightarrow> int option show_doc list \<Rightarrow> error + db" where
  "Show_insertMany env d docs =
     (case storage_fault env Show_insertMany_call of
        Some e \<Rightarrow> Inl e
      | None \<Rightarrow>
          if list_ex (\<lambda>doc. showDateTime doc = None) docs then Inl cast_failed
          else Inr (d\<lparr>shows := shows d @ stored (next_show_id d) docs,
                      next_show_id := next_show_id d + length docs\<rparr>))"

text \<open>
  Modelled from the spec: \<open>Show.find(filter)\<close> of the missing models/Show.js, the stored
  Shows that satisfy the filter, in storage order (section 4.4).
\<close>

definition Show_find :: "env \<Rightarrow> db \<Rightarrow> (show \<Rightarrow> bool) \<Rightarrow> error + show list" where
  "Show_find env d matches =
     (case storage_fault env Show_find_call of
        Some e \<Rightarrow> Inl e
      | None \<Rightarrow> Inr (filter matches (shows d)))"

text \<open>
  Modelled from the spec: \<open>.populate('movie')\<close> on the missing models/Show.js, each Show
  joined to its owning Movie (section 4.4). The reference is replaced by the Movie it
  names, \<open>null\<close> when there is none. Mongoose hands one and the same document to every
  Show that names it, so two populated values are the same object exactly when they are
  the same document.
\<close>

definition populate :: "db \<Rightarrow> show \<Rightarrow> movie option" where
  "populate d s = find (\<lambda>m. movie_id m = movie s) (movies d)"

section \<open>What a handler answers\<close>

text \<open>\<open>time\<close> and \<open>showId\<close> of an entry of \<open>dateTime\<close> in \<open>getShow\<close>.\<close>

record slot =
  slot_time :: int
  showId :: nat

text \<open>
  The object given to \<open>res.json\<close>: the discriminator \<open>success\<close> and the one other
  property (two in \<open>getShow\<close>) that goes with it.
\<close>

datatype body =
    Movies "json option"
  | Message string
  | Shows "movie option list"
  | Show_detail "movie option" "(string \<times> slot list) list"

datatype reply = Reply (success: bool) (content: body)

text \<open>
  A handler either answers the request or lets an exception leave it (an unhandled
  rejection of the async function).
\<close>

datatype outcome = Responded reply | Uncaught error

text \<open>
  The \<open>catch (error)\<close> block that closes every handler:
  \<open>res.json({ success: false, message: error.message })\<close>.
\<close>

definition catch_block :: "error + reply \<Rightarrow> outcome" where
  "catch_block settled =
     (case settled of
        Inr answered \<Rightarrow> Responded answered
      | Inl error \<Rightarrow> Responded (Reply False (Message (message error))))"


definition undefined_response :: error where
  "undefined_response =
     \<lparr>kind = TypeError, message = ''Cannot read properties of undefined (reading 'data')''\<rparr>"

definition undefined_body :: error where
  "undefined_body =
     \<lparr>kind = TypeError,
      message = ''Cannot destructure property 'movieId' of 'req.body' as it is undefined.''\<rparr>"

section \<open>getNowPlayingMovies\<close>

definition now_playing_url :: string where
  "now_playing_url = ''https://api.themoviedb.org/3/movie/now_playing''"



section \<open>addShow\<close>

subsection \<open>The movie: found, or fetched and created\<close>

definition details_url :: "string \<Rightarrow> string" where
  "details_url movieId = ''https://api.themoviedb.org/3/movie/'' @ movieId"

definition credits_url :: "string \<Rightarrow> string" where
  "credits_url movieId = ''https://api.themoviedb.org/3/movie/'' @ movieId @ ''/credits''"

text \<open>
  \<open>Promise.all\<close> of the two fetches: both responses, or the error of the one that
  rejected (of the one that rejected first when both did).
\<close>

definition Promise_all ::
  "env \<Rightarrow> error + response option \<Rightarrow> error + response option
     \<Rightarrow> error + response option \<times> response option" where
  "Promise_all env details credits =
     (case details of
        Inr d \<Rightarrow> (case credits of Inr c \<Rightarrow> Inr (d, c) | Inl e2 \<Rightarrow> Inl e2)
      | Inl e1 \<Rightarrow>
          (case credits of
             Inr c \<Rightarrow> Inl e1
           | Inl e2 \<Rightarrow> Inl (if credits_rejects_first env then e2 else e1)))"

text \<open>
  The object literal \<open>movieDetails\<close>. Its one computed field is
  \<open>movieApiData.tagline || ""\<close>: the empty string when the tagline is missing or empty.
\<close>

definition movieDetails :: "string \<Rightarrow> response_data \<Rightarrow> movie" where
  "movieDetails movieId movieApiData =
     \<lparr>movie_id = movieId,
      title = api_title movieApiData,
      overview = api_overview movieApiData,
      poster_path = api_poster_path movieApiData,
      backdrop_path = api_backdrop_path movieApiData,
      genres = api_genres movieApiData,
      casts = api_casts movieApiData,
      release_date = api_release_date movieApiData,
      original_language = api_original_language movieApiData,
      tagline = (case api_tagline movieApiData of
                   None \<Rightarrow> []
                 | Some t \<Rightarrow> if t = [] then [] else t),
      vote_average = api_vote_average movieApiData,
      runtime = api_runtime movieApiData\<rparr>"

text \<open>
  One call of \<open>fetchWithRetry\<close> as the caller sees it: the url it was given and the
  events of the call. The two calls of \<open>addShow\<close> run concurrently, so each keeps its
  own events.
\<close>

type_synonym fetch = "string \<times> event list"

text \<open>
  The body of the inner \<open>try\<close> (lines 51 to 75): both fetches are started, the handler
  waits for both, builds \<open>movieDetails\<close> from the details response and creates the Movie.
  The storage it creates into is the storage as it is by then.
\<close>

definition sync_movie :: "env \<Rightarrow> db \<Rightarrow> string \<Rightarrow> (error + movie) \<times> db \<times> fetch list" where
  "sync_movie env d movieId =
     (case fetchWithRetry (axios_get env) (details_url movieId) MAX_RETRIES of
        (details, evs1) \<Rightarrow>
     (case fetchWithRetry (axios_get env) (credits_url movieId) MAX_RETRIES of
        (credits, evs2) \<Rightarrow>
     (let fetches = [(details_url movieId, evs1), (credits_url movieId, evs2)];
          d1 = d\<lparr>movies := movies d @ concurrent_creates env\<rparr>
      in case Promise_all env details credits of
           Inl e \<Rightarrow> (Inl e, d1, fetches)
         | Inr (movieDetailsResponse, movieCreditsResponse) \<Rightarrow>
             (case movieDetailsResponse of
                None \<Rightarrow> (Inl undefined_response, d1, fetches)
              | Some r1 \<Rightarrow>
                  (case movieCreditsResponse of
                     None \<Rightarrow> (Inl undefined_response, d1, fetches)
                   | Some r2 \<Rightarrow>
                       (case Movie_create env d1 (movieDetails movieId (data r1)) of
                          Inl e \<Rightarrow> (Inl e, d1, fetches)
                        | Inr (created, d2) \<Rightarrow> (Inr created, d2, fetches)))))))"

text \<open>
  Lines 46 to 80: the lookup, and for a movie that is not stored the inner
  \<open>try\<close>/\<open>catch\<close>. \<open>Inl\<close> is an exception on its way to the outer \<open>catch\<close>;
  \<open>Inr (Inl answered)\<close> is the \<open>return res.json(...)\<close> of the inner \<open>catch\<close>;
  \<open>Inr (Inr movie)\<close> is the movie the handler goes on with.
\<close>

definition resolve ::
  "env \<Rightarrow> db \<Rightarrow> string \<Rightarrow> (error + reply + movie) \<times> db \<times> fetch list" where
  "resolve env d movieId =
     (case Movie_findById env d movieId of
        Inl e \<Rightarrow> (Inl e, d, [])
      | Inr (Some found) \<Rightarrow> (Inr (Inr found), d, [])
      | Inr None \<Rightarrow>
          (case sync_movie env d movieId of
             (Inl apiError, d', fetches) \<Rightarrow>
               (Inr (Inl (Reply False
                  (Message (''Failed to fetch movie from TMDB: '' @ message apiError)))),
                d', fetches)
           | (Inr created, d', fetches) \<Rightarrow> (Inr (Inr created), d', fetches)))"

subsection \<open>The shows\<close>

text \<open>An entry of \<open>showsInput\<close>.\<close>

record showInput =
  date :: string
  time :: "string list"

text \<open>\<open>show.time.forEach(time => showsToCreate.push(...))\<close>\<close>

fun push_times ::
  "env \<Rightarrow> string \<Rightarrow> rat \<Rightarrow> string \<Rightarrow> string list
     \<Rightarrow> int option show_doc list \<Rightarrow> int option show_doc list" where
  "push_times env movieId price showDate [] showsToCreate = showsToCreate"
| "push_times env movieId price showDate (t # ts) showsToCreate =
     push_times env movieId price showDate ts
       (showsToCreate @
          [\<lparr>movie = movieId, showDateTime = Date_new env (showDate @ ''T'' @ t),
            showPrice = price, occupiedSeats = []\<rparr>])"

text \<open>\<open>showsInput.forEach(show => ...)\<close>\<close>

fun push_shows ::
  "env \<Rightarrow> string \<Rightarrow> rat \<Rightarrow> showInput list
     \<Rightarrow> int option show_doc list \<Rightarrow> int option show_doc list" where
  "push_shows env movieId price [] showsToCreate = showsToCreate"
| "push_shows env movieId price (s # rest) showsToCreate =
     push_shows env movieId price rest
       (push_times env movieId price (date s) (time s) showsToCreate)"

definition showsToCreate ::
  "env \<Rightarrow> string \<Rightarrow> showInput list \<Rightarrow> rat \<Rightarrow> int option show_doc list" where
  "showsToCreate env movieId showsInput price = push_shows env movieId price showsInput []"

definition show_added :: reply where
  "show_added = Reply True (Message ''Show Added successfully.'')"

text \<open>Lines 82 to 100.\<close>

definition createShows ::
  "env \<Rightarrow> db \<Rightarrow> string \<Rightarrow> showInput list \<Rightarrow> rat \<Rightarrow> (error + reply) \<times> db" where
  "createShows env d movieId showsInput price =
     (if length (showsToCreate env movieId showsInput price) > 0 then
        (case Show_insertMany env d (showsToCreate env movieId showsInput price) of
           Inl e \<Rightarrow> (Inl e, d)
         | Inr d' \<Rightarrow> (Inr show_added, d'))
      else (Inr show_added, d))"

text \<open>
  A value of the request body as the handler meets it. The body is parsed JSON, so
  \<open>showsInput\<close> need not be an array and an entry need not be an object with an array
  \<open>time\<close>: on such a value the next step of the handler (\<open>showsInput.forEach\<close>,
  \<open>show.time.forEach\<close>) throws a TypeError, whose message the engine chooses from the
  value. Whatever \<open>date\<close> and the elements of \<open>time\<close> are, the template literal makes
  strings of them.
\<close>

datatype 'a checked = Ill_typed string | Well_typed 'a

text \<open>
  \<open>showsInput.forEach\<close> over the entries as they come: the first entry it cannot go
  through ends the loop with its TypeError, before anything is written.
\<close>

fun entries_of :: "showInput checked list \<Rightarrow> error + showInput list" where
  "entries_of [] = Inr []"
| "entries_of (Ill_typed msg # rest) = Inl \<lparr>kind = TypeError, message = msg\<rparr>"
| "entries_of (Well_typed s # rest) =
     (case entries_of rest of Inl e \<Rightarrow> Inl e | Inr ss \<Rightarrow> Inr (s # ss))"

type_synonym request_body = "string \<times> showInput checked list checked \<times> rat"

text \<open>
  The outer \<open>try\<close> block. The request body is missing, or holds \<open>movieId\<close>,
  \<open>showsInput\<close> and \<open>showPrice\<close>. The movie is resolved first (lines 46 to 80), so a
  \<open>showsInput\<close> the loops cannot go through throws only after the movie was created.
\<close>

definition addShow_try ::
  "env \<Rightarrow> db \<Rightarrow> request_body option \<Rightarrow> (error + reply) \<times> db \<times> fetch list" where
  "addShow_try env d req_body =
     (case req_body of
        None \<Rightarrow> (Inl undefined_body, d, [])
      | Some (movieId, showsInput, price) \<Rightarrow>
          (case resolve env d movieId of
             (Inl e, d', fetches) \<Rightarrow> (Inl e, d', fetches)
           | (Inr (Inl answered), d', fetches) \<Rightarrow> (Inr answered, d', fetches)
           | (Inr (Inr m), d', fetches) \<Rightarrow>
               (case showsInput of
                  Ill_typed msg \<Rightarrow> (Inl \<lparr>kind = TypeError, message = msg\<rparr>, d', fetches)
                | Well_typed entries \<Rightarrow>
                    (case entries_of entries of
                       Inl e \<Rightarrow> (Inl e, d', fetches)
                     | Inr ss \<Rightarrow>
                         (case createShows env d' movieId ss price of
                            (settled, d'') \<Rightarrow> (settled, d'', fetches))))))"

definition addShow ::
  "env \<Rightarrow> db \<Rightarrow> request_body option \<Rightarrow> outcome \<times> db \<times> fetch list" where
  "addShow env d req_body =
     (case addShow_try env d req_body of
        (settled, d', fetches) \<Rightarrow> (catch_block settled, d', fetches))"

section \<open>getShows\<close>

text \<open>
  \<open>new Set(array)\<close>: the values of the array in the order of their first occurrence,
  each once. Two populated movies are the same value exactly when they are the same document.
\<close>

definition Set_add :: "'a list \<Rightarrow> 'a \<Rightarrow> 'a list" where
  "Set_add s x = (if x \<in> set s then s else s @ [x])"

definition Set_from :: "'a list \<Rightarrow> 'a list" where
  "Set_from xs = foldl Set_add [] xs"

definition getShows_try :: "env \<Rightarrow> db \<Rightarrow> error + reply" where
  "getShows_try env d =
     (case Show_find env d (\<lambda>s. now env \<le> showDateTime s) of
        Inl e \<Rightarrow> Inl e
      | Inr found \<Rightarrow>
          (let sorted_shows = sort_key showDateTime found;
               uniqueShows = Set_from (map (populate d) sorted_shows)
           in Inr (Reply True (Shows uniqueShows))))"

definition getShows :: "env \<Rightarrow> db \<Rightarrow> outcome" where
  "getShows env d = catch_block (getShows_try env d)"

section \<open>getShow\<close>

subsection \<open>The date part of toISOString\<close>

text \<open>
  \<open>show.showDateTime.toISOString().split("T")[0]\<close> is the calendar date, in UTC, of the
  instant: the day number is the time value divided by the milliseconds of a day,
  rounded down, and the day number is turned into year, month and day of the proleptic
  Gregorian calendar. Years 0 to 9999 are written with four digits, the others with a
  sign and six.
\<close>

definition msPerDay :: int where
  "msPerDay = 86400000"

definition civil_from_days :: "int \<Rightarrow> int \<times> int \<times> int" where
  "civil_from_days days =
     (let z = days + 719468;
          era = z div 146097;
          doe = z - era * 146097;
          yoe = (doe - doe div 1460 + doe div 36524 - doe div 146096) div 365;
          doy = doe - (365 * yoe + yoe div 4 - yoe div 100);
          mp = (5 * doy + 2) div 153;
          day = doy - (153 * mp + 2) div 5 + 1;
          month = (if mp < 10 then mp + 3 else mp - 9);
          year = yoe + era * 400 + (if month \<le> 2 then 1 else 0)
      in (year, month, day))"

definition digit :: "nat \<Rightarrow> char" where
  "digit n = ''0123456789'' ! (n mod 10)"

fun digits :: "nat \<Rightarrow> nat \<Rightarrow> string" where
  "digits 0 n = []"
| "digits (Suc width) n = digits width (n div 10) @ [digit n]"

definition iso_year :: "int \<Rightarrow> string" where
  "iso_year y =
     (if 0 \<le> y \<and> y \<le> 9999 then digits 4 (nat y)
      else (if y < 0 then ''-'' else ''+'') @ digits 6 (nat \<bar>y\<bar>))"

definition iso_date :: "int \<Rightarrow> string" where
  "iso_date t =
     (case civil_from_days (t div msPerDay) of
        (year, month, day) \<Rightarrow>
          iso_year year @ ''-'' @ digits 2 (nat month) @ ''-'' @ digits 2 (nat day))"

subsection \<open>The handler\<close>

text \<open>
  \<open>if (!dateTime[date]) dateTime[date] = []; dateTime[date].push(entry)\<close> on an object
  whose keys keep the order in which they were first written.
\<close>

fun dateTime_push :: "string \<Rightarrow> slot \<Rightarrow> (string \<times> slot list) list \<Rightarrow> (string \<times> slot list) list" where
  "dateTime_push k entry [] = [(k, [entry])]"
| "dateTime_push k entry ((k', entries) # rest) =
     (if k = k' then (k', entries @ [entry]) # rest
      else (k', entries) # dateTime_push k entry rest)"

text \<open>\<open>shows.forEach((show) => ...)\<close>\<close>

fun group_shows :: "show list \<Rightarrow> (string \<times> slot list) list \<Rightarrow> (string \<times> slot list) list" where
  "group_shows [] dateTime = dateTime"
| "group_shows (s # rest) dateTime =
     group_shows rest
       (dateTime_push (iso_date (showDateTime s))
          \<lparr>slot_time = showDateTime s, showId = show_id s\<rparr> dateTime)"

definition getShow_try :: "env \<Rightarrow> db \<Rightarrow> string \<Rightarrow> error + reply" where
  "getShow_try env d movieId =
     (case Show_find env d (\<lambda>s. movie s = movieId \<and> now env \<le> showDateTime s) of
        Inl e \<Rightarrow> Inl e
      | Inr found \<Rightarrow>
          (case Movie_findById env d movieId of
             Inl e \<Rightarrow> Inl e
           | Inr m \<Rightarrow> Inr (Reply True (Show_detail m (group_shows found [])))))"

definition getShow :: "env \<Rightarrow> db \<Rightarrow> string \<Rightarrow> outcome" where
  "getShow env d movieId = catch_block (getShow_try env d movieId)"

section \<open>Notions the properties are stated with\<close>


text \<open>The stored shows of a movie that are not in the past, in storage order.\<close>

definition upcoming :: "env \<Rightarrow> db \<Rightarrow> string \<Rightarrow> show list" where
  "upcoming env d movieId = filter (\<lambda>s. movie s = movieId \<and> now env \<le> showDateTime s) (shows d)"

text \<open>The entry \<open>getShow\<close> makes of a show, and the key it files it under.\<close>

definition slot_of :: "show \<Rightarrow> slot" where
  "slot_of s = \<lparr>slot_time = showDateTime s, showId = show_id s\<rparr>"

definition date_key :: "show \<Rightarrow> string" where
  "date_key s = iso_date (showDateTime s)"

section \<open>Concrete requests and states\<close>

text \<open>The request of the spec's own test of \<open>createShows\<close>, against a catalog that answers.\<close>

definition example_data :: response_data where
  "example_data =
     \<lparr>api_results = None,
      api_title = Some (JStr ''Dune: Part Two''),
      api_overview = Some (JStr ''Paul Atreides unites with the Fremen.''),
      api_poster_path = Some (JStr ''/poster.jpg''),
      api_backdrop_path = Some (JStr ''/backdrop.jpg''),
      api_genres = Some (JArr [JObj [(''id'', JNum 878), (''name'', JStr ''Science Fiction'')]]),
      api_casts = None,
      api_release_date = Some (JStr ''2024-02-27''),
      api_original_language = Some (JStr ''en''),
      api_tagline = None,
      api_vote_average = Some (JNum (Fract 163 20)),
      api_runtime = Some (JNum 167)\<rparr>"

definition example_env :: env where
  "example_env =
     \<lparr>axios_get = (\<lambda>url i. Inr \<lparr>data = example_data\<rparr>),
      credits_rejects_first = False,
      Date_new = map_of [(''2024-05-01T14:00'', 1714572000000),
                         (''2024-05-01T18:00'', 1714586400000),
                         (''2024-05-02T20:00'', 1714680000000)],
      now = 1714000000000,
      storage_fault = (\<lambda>call. None),
      concurrent_creates = []\<rparr>"

definition example_input :: "showInput list" where
  "example_input =
     [\<lparr>date = ''2024-05-01'', time = [''14:00'', ''18:00'']\<rparr>,
      \<lparr>date = ''2024-05-02'', time = [''20:00'']\<rparr>]"

definition empty_db :: db where
  "empty_db = \<lparr>movies = [], shows = [], next_show_id = 0\<rparr>"


text \<open>A catalog that rejects every request.\<close>

definition failing_env :: env where
  "failing_env =
     example_env\<lparr>axios_get :=
       (\<lambda>url i. Inl \<lparr>kind = HttpError, message = ''Request failed with status code 404''\<rparr>)\<rparr>"

text \<open>
  The race of section 4.2: while this request awaits the catalog, another request for
  the same movie creates it.
\<close>

definition racing_env :: env where
  "racing_env = example_env\<lparr>concurrent_creates := [movieDetails ''693134'' example_data]\<rparr>"

text \<open>Storage that has lost its connection.\<close>

definition disconnected_env :: env where
  "disconnected_env =
     example_env\<lparr>storage_fault :=
       (\<lambda>call. Some \<lparr>kind = StorageError, message = ''connection closed''\<rparr>)\<rparr>"

definition example_request :: "request_body option" where
  "example_request = Some (''693134'', Well_typed (map Well_typed example_input), Fract 25 2)"


text \<open>
  Storage after one \<open>addShow\<close> whose times come latest first: the movie, and two shows
  on one day stored in the order of the request.
\<close>

definition evening_first :: "request_body option" where
  "evening_first =
     Some (''693134'',
           Well_typed [Well_typed \<lparr>date = ''2024-05-01'', time = [''18:00'', ''14:00'']\<rparr>],
           Fract 25 2)"

definition evening_first_db :: db where
  "evening_first_db = fst (snd (addShow example_env empty_db evening_first))"

text \<open>
  Storage with two movies: three upcoming shows of the first, on two days, and one show
  of the second that is over.
\<close>

definition past_movie :: movie where
  "past_movie = movieDetails ''438631'' (example_data\<lparr>api_title := Some (JStr ''Dune'')\<rparr>)"

definition two_movies_db :: db where
  "two_movies_db =
     \<lparr>movies = [movieDetails ''693134'' example_data, past_movie],
      shows =
        [\<lparr>movie = ''693134'', showDateTime = 1714572000000, showPrice = Fract 25 2,
          occupiedSeats = [], show_id = 0\<rparr>,
         \<lparr>movie = ''438631'', showDateTime = 1700000000000, showPrice = 10,
          occupiedSeats = [], show_id = 1\<rparr>,
         \<lparr>movie = ''693134'', showDateTime = 1714586400000, showPrice = Fract 25 2,
          occupiedSeats = [], show_id = 2\<rparr>,
         \<lparr>movie = ''693134'', showDateTime = 1714640400000, showPrice = Fract 25 2,
          occupiedSeats = [], show_id = 3\<rparr>],
      next_show_id = 4\<rparr>"

section \<open>Properties of fetchWithRetry\<close>

declare fetchWithRetry_from.simps [simp del]

text \<open>
  When every attempt fails, a call entered at index \<open>i\<close> makes the remaining attempts,
  throws the error of the last one, and waits \<open>RETRY_DELAY * 2 ^ j\<close> after each failed
  attempt \<open>j\<close> but the last.
\<close>

lemma fetchWithRetry_from_all_fail:
  assumes "\<And>j. int j < retries \<Longrightarrow> request url j = Inl (err j)" and "int i < retries"
  shows "fst (fetchWithRetry_from request url retries i) = Inl (err (nat (retries - 1)))
       \<and> length (filter is_Get (snd (fetchWithRetry_from request url retries i))) = nat retries - i
       \<and> sleeps (snd (fetchWithRetry_from request url retries i))
           = map (\<lambda>j. RETRY_DELAY * 2 ^ j) [i..<nat (retries - 1)]"
  using assms
proof (induction request url retries i rule: fetchWithRetry_from.induct)
  case (1 request url retries i)
  have fail: "request url i = Inl (err i)"
    using 1(2) 1(3) by simp
  show ?case
  proof (cases "int i = retries - 1")
    case True
    then have "nat (retries - 1) = i" by simp
    with True fail 1(3) show ?thesis
      by (subst (1 2 3) fetchWithRetry_from.simps) auto
  next
    case False
    with 1(3) have lt: "int (Suc i) < retries" by simp
    have IH: "fst (fetchWithRetry_from request url retries (Suc i)) = Inl (err (nat (retries - 1)))
       \<and> length (filter is_Get (snd (fetchWithRetry_from request url retries (Suc i))))
           = nat retries - Suc i
       \<and> sleeps (snd (fetchWithRetry_from request url retries (Suc i)))
           = map (\<lambda>j. RETRY_DELAY * 2 ^ j) [Suc i..<nat (retries - 1)]"
      using 1(1)[OF 1(3) fail False] 1(2) lt by blast
    have il: "i < nat (retries - 1)" using lt by simp
    show ?thesis
      using IH fail False 1(3) lt il
      by (subst (1 2 3) fetchWithRetry_from.simps)
         (auto split: prod.splits simp: upt_conv_Cons)
  qed
qed

text \<open>
  A call with a positive number of retries makes at least one request and at most
  \<open>retries\<close>, and never returns \<open>undefined\<close>.
\<close>

lemma fetchWithRetry_from_requests:
  assumes "int i < retries"
  shows "1 \<le> length (filter is_Get (snd (fetchWithRetry_from request url retries i)))
       \<and> length (filter is_Get (snd (fetchWithRetry_from request url retries i))) \<le> nat retries - i
       \<and> fst (fetchWithRetry_from request url retries i) \<noteq> Inr None"
  using assms
proof (induction request url retries i rule: fetchWithRetry_from.induct)
  case (1 request url retries i)
  show ?case
  proof (cases "request url i")
    case (Inr r)
    with 1(2) show ?thesis
      by (subst (1 2 3) fetchWithRetry_from.simps) auto
  next
    case (Inl e)
    show ?thesis
    proof (cases "int i = retries - 1")
      case True
      with Inl 1(2) show ?thesis
        by (subst (1 2 3) fetchWithRetry_from.simps) auto
    next
      case False
      with 1(2) have lt: "int (Suc i) < retries" by simp
      from 1(1)[OF 1(2) Inl False lt] Inl False 1(2) lt show ?thesis
        by (subst (1 2 3) fetchWithRetry_from.simps) (auto split: prod.splits)
    qed
  qed
qed

lemma fetchWithRetry_default_defined:
  "fst (fetchWithRetry request url MAX_RETRIES) \<noteq> Inr None"
  using fetchWithRetry_from_requests [of 0 MAX_RETRIES request url]
  by (simp add: fetchWithRetry_def MAX_RETRIES_def)

text \<open>
  C2. With the default configuration (three attempts) and a request that fails at every
  attempt, \<open>fetchWithRetry\<close> makes exactly three requests and throws the error of the
  third, unchanged; after the failed attempt \<open>i\<close> (0 and 1) it waits
  \<open>1000 * 2 ^ i\<close> milliseconds, 1000 and then 2000, and it logs each retry.
\<close>

theorem fetchWithRetry_always_failing:
  assumes "request url 0 = Inl e0" and "request url 1 = Inl e1" and "request url 2 = Inl e2"
  shows "fetchWithRetry request url MAX_RETRIES =
           (Inl e2, [Get url, Log 1 1000 url, Sleep 1000,
                     Get url, Log 2 2000 url, Sleep 2000, Get url])
       \<and> length (filter is_Get (snd (fetchWithRetry request url MAX_RETRIES))) = 3
       \<and> sleeps (snd (fetchWithRetry request url MAX_RETRIES)) = [1000 * 2 ^ 0, 1000 * 2 ^ 1]"
  using assms
  by (simp add: fetchWithRetry_def fetchWithRetry_from.simps MAX_RETRIES_def RETRY_DELAY_def
        numeral_2_eq_2)

theorem fetchWithRetry_always_failing_witness:
  "fetchWithRetry (\<lambda>u i. Inl \<lparr>kind = HttpError, message = ''timeout of 15000ms exceeded''\<rparr>)
      now_playing_url MAX_RETRIES =
     (Inl \<lparr>kind = HttpError, message = ''timeout of 15000ms exceeded''\<rparr>,
      [Get now_playing_url, Log 1 1000 now_playing_url, Sleep 1000,
       Get now_playing_url, Log 2 2000 now_playing_url, Sleep 2000, Get now_playing_url])"
  using fetchWithRetry_always_failing
    [of "\<lambda>u i. Inl \<lparr>kind = HttpError, message = ''timeout of 15000ms exceeded''\<rparr>"
        now_playing_url "\<lparr>kind = HttpError, message = ''timeout of 15000ms exceeded''\<rparr>"
        "\<lparr>kind = HttpError, message = ''timeout of 15000ms exceeded''\<rparr>"
        "\<lparr>kind = HttpError, message = ''timeout of 15000ms exceeded''\<rparr>"]
  by simp

text \<open>
  C10. Called with a number of retries that is zero or negative, \<open>fetchWithRetry\<close> makes
  no request and returns \<open>undefined\<close>: neither a response nor an error.
\<close>

theorem fetchWithRetry_no_retries:
  "retries \<le> 0 \<Longrightarrow> fetchWithRetry request url retries = (Inr None, [])"
  by (simp add: fetchWithRetry_def fetchWithRetry_from.simps)

theorem fetchWithRetry_no_retries_witness:
  "(0::int) \<le> 0 \<and>
   fetchWithRetry (\<lambda>u i. Inl \<lparr>kind = HttpError, message = ''Network Error''\<rparr>) now_playing_url 0
     = (Inr None, [])"
  using fetchWithRetry_no_retries
    [of 0 "\<lambda>u i. Inl \<lparr>kind = HttpError, message = ''Network Error''\<rparr>" now_playing_url]
  by simp

section \<open>Properties of addShow\<close>

lemma push_times_append:
  "push_times env movieId price showDate ts acc =
     acc @ map (\<lambda>t. \<lparr>movie = movieId, showDateTime = Date_new env (showDate @ ''T'' @ t),
                      showPrice = price, occupiedSeats = []\<rparr>) ts"
  by (induction ts arbitrary: acc) simp_all

lemma push_shows_append:
  "push_shows env movieId price ss acc =
     acc @ concat (map (\<lambda>s. map (\<lambda>t. \<lparr>movie = movieId,
                                        showDateTime = Date_new env (date s @ ''T'' @ t),
                                        showPrice = price, occupiedSeats = []\<rparr>) (time s)) ss)"
  by (induction ss arbitrary: acc) (simp_all add: push_times_append)

lemma length_showsToCreate:
  "length (showsToCreate env movieId showsInput price) = sum_list (map (\<lambda>s. length (time s)) showsInput)"
  by (simp add: showsToCreate_def push_shows_append length_concat comp_def)

lemma createShows_accepted:
  assumes "storage_fault env Show_insertMany_call = None"
    and "\<forall>doc \<in> set (showsToCreate env movieId showsInput price). showDateTime doc \<noteq> None"
  shows "fst (createShows env d movieId showsInput price) = Inr show_added
       \<and> shows (snd (createShows env d movieId showsInput price))
           = shows d @ stored (next_show_id d) (showsToCreate env movieId showsInput price)"
proof (cases "showsToCreate env movieId showsInput price")
  case Nil
  then show ?thesis by (simp add: createShows_def)
next
  case (Cons doc docs)
  with assms show ?thesis
    by (auto simp: createShows_def Show_insertMany_def list_ex_iff)
qed

text \<open>With the movie in storage and nothing to schedule, \<open>addShow\<close> touches nothing and succeeds.\<close>

lemma addShow_empty_schedule:
  "Movie_findById env d movieId = Inr (Some m) \<Longrightarrow>
     addShow env d (Some (movieId, Well_typed [], price)) = (Responded show_added, d, [])"
  by (simp add: addShow_def addShow_try_def resolve_def createShows_def showsToCreate_def
        catch_block_def)

text \<open>
  C3. The shows \<open>addShow\<close> builds from \<open>showsInput\<close> are, in order, one for every time of
  every entry: their number is the sum of the lengths of the time lists; each has the
  given price, no occupied seat, and as \<open>showDateTime\<close> the Date made of the entry's date,
  a \<open>T\<close> and the time. When storage accepts them they are the shows written, and the
  handler reports success. For an empty \<open>showsInput\<close> nothing is written, storage is not
  called, and the handler reports success all the same.
\<close>

theorem createShows_cross_product:
  "showsToCreate env movieId showsInput price =
     concat (map (\<lambda>s. map (\<lambda>t. \<lparr>movie = movieId,
                                  showDateTime = Date_new env (date s @ ''T'' @ t),
                                  showPrice = price, occupiedSeats = []\<rparr>) (time s)) showsInput)
   \<and> length (showsToCreate env movieId showsInput price)
       = sum_list (map (\<lambda>s. length (time s)) showsInput)
   \<and> (\<forall>doc \<in> set (showsToCreate env movieId showsInput price).
         showPrice doc = price \<and> occupiedSeats doc = [] \<and> movie doc = movieId)
   \<and> (storage_fault env Show_insertMany_call = None
        \<and> (\<forall>doc \<in> set (showsToCreate env movieId showsInput price). showDateTime doc \<noteq> None)
       \<longrightarrow> fst (createShows env d movieId showsInput price) = Inr show_added
         \<and> shows (snd (createShows env d movieId showsInput price))
             = shows d @ stored (next_show_id d) (showsToCreate env movieId showsInput price))
   \<and> createShows env d movieId [] price = (Inr show_added, d)"
proof -
  have eq: "showsToCreate env movieId showsInput price =
     concat (map (\<lambda>s. map (\<lambda>t. \<lparr>movie = movieId,
                                  showDateTime = Date_new env (date s @ ''T'' @ t),
                                  showPrice = price, occupiedSeats = []\<rparr>) (time s)) showsInput)"
    by (simp add: showsToCreate_def push_shows_append)
  have fields: "\<forall>doc \<in> set (showsToCreate env movieId showsInput price).
         showPrice doc = price \<and> occupiedSeats doc = [] \<and> movie doc = movieId"
    unfolding eq by auto
  have none: "createShows env d movieId [] price = (Inr show_added, d)"
    by (simp add: createShows_def showsToCreate_def)
  have len: "length (showsToCreate env movieId showsInput price)
       = sum_list (map (\<lambda>s. length (time s)) showsInput)"
    by (rule length_showsToCreate)
  have acc: "storage_fault env Show_insertMany_call = None
        \<and> (\<forall>doc \<in> set (showsToCreate env movieId showsInput price). showDateTime doc \<noteq> None)
       \<longrightarrow> fst (createShows env d movieId showsInput price) = Inr show_added
         \<and> shows (snd (createShows env d movieId showsInput price))
             = shows d @ stored (next_show_id d) (showsToCreate env movieId showsInput price)"
    using createShows_accepted [of env movieId showsInput price d] by simp
  show ?thesis
    by (rule conjI [OF eq conjI [OF len conjI [OF fields conjI [OF acc none]]]])
qed

theorem createShows_cross_product_witness:
  "storage_fault example_env Show_insertMany_call = None
   \<and> map showDateTime (showsToCreate example_env ''693134'' example_input (Fract 25 2))
       = [Some 1714572000000, Some 1714586400000, Some 1714680000000]
   \<and> length (showsToCreate example_env ''693134'' example_input (Fract 25 2)) = 3
   \<and> fst (createShows example_env empty_db ''693134'' example_input (Fract 25 2)) = Inr show_added
   \<and> shows (snd (createShows example_env empty_db ''693134'' example_input (Fract 25 2)))
       = shows empty_db @ stored (next_show_id empty_db)
           (showsToCreate example_env ''693134'' example_input (Fract 25 2))"
proof -
  note c = createShows_cross_product
    [of example_env "''693134''" example_input "Fract 25 2" empty_db]
  have h1: "storage_fault example_env Show_insertMany_call = None"
    by (simp add: example_env_def)
  have h2: "\<forall>doc \<in> set (showsToCreate example_env ''693134'' example_input (Fract 25 2)).
         showDateTime doc \<noteq> None"
    by (simp add: showsToCreate_def example_input_def example_env_def)
  have "sum_list (map (\<lambda>s. length (time s)) example_input) = 3"
    by (simp add: example_input_def)
  with c [THEN conjunct2, THEN conjunct1]
  have len: "length (showsToCreate example_env ''693134'' example_input (Fract 25 2)) = 3"
    by (rule trans)
  note written = c [THEN conjunct2, THEN conjunct2, THEN conjunct2, THEN conjunct1,
                    THEN mp, OF conjI [OF h1 h2]]
  have dates: "map showDateTime (showsToCreate example_env ''693134'' example_input (Fract 25 2))
       = [Some 1714572000000, Some 1714586400000, Some 1714680000000]"
    by (simp add: showsToCreate_def example_input_def example_env_def)
  show ?thesis
    by (rule conjI [OF h1 conjI [OF dates conjI [OF len written]]])
qed

subsection \<open>The movie\<close>

lemma find_snoc_new:
  "\<forall>x \<in> set xs. \<not> P x \<Longrightarrow> P y \<Longrightarrow> find P (xs @ [y]) = Some y"
  by (induction xs) auto

lemma find_None_ids:
  "(find (\<lambda>m. movie_id m = movieId) ms = None) = (movieId \<notin> set (map movie_id ms))"
  by (induction ms) auto

text \<open>The inner \<open>try\<close> always starts both fetches, one call each.\<close>

lemma sync_movie_fetches:
  "snd (snd (sync_movie env d movieId)) =
     [(details_url movieId, snd (fetchWithRetry (axios_get env) (details_url movieId) MAX_RETRIES)),
      (credits_url movieId, snd (fetchWithRetry (axios_get env) (credits_url movieId) MAX_RETRIES))]"
  by (simp add: sync_movie_def Let_def split: prod.splits sum.splits option.splits)

text \<open>What it leaves in storage: one more Movie when it succeeds, nothing of its own otherwise.\<close>

lemma sync_movie_movies:
  "movies (fst (snd (sync_movie env d movieId))) =
     (case fst (sync_movie env d movieId) of
        Inr created \<Rightarrow> movies d @ concurrent_creates env @ [created]
      | Inl e \<Rightarrow> movies d @ concurrent_creates env)"
  by (simp add: sync_movie_def Movie_create_def Let_def
        split: prod.splits sum.splits option.splits)

lemma sync_movie_shows:
  "shows (fst (snd (sync_movie env d movieId))) = shows d"
  by (simp add: sync_movie_def Movie_create_def Let_def
        split: prod.splits sum.splits option.splits)

text \<open>When it succeeds, the Movie is the normalized details response and its key was free.\<close>

lemma sync_movie_created:
  assumes "fst (sync_movie env d movieId) = Inr created"
  shows "\<exists>r1. fst (fetchWithRetry (axios_get env) (details_url movieId) MAX_RETRIES) = Inr (Some r1)
            \<and> created = movieDetails movieId (data r1)
            \<and> movieId \<notin> set (map movie_id (movies d @ concurrent_creates env))"
proof -
  have id: "movie_id (movieDetails movieId a) = movieId" for a
    by (simp add: movieDetails_def)
  from assms show ?thesis
    by (auto simp: sync_movie_def Movie_create_def Promise_all_def Let_def id
          split: prod.splits sum.splits option.splits if_splits)
qed

lemma sync_movie_succeeds:
  assumes "fst (fetchWithRetry (axios_get env) (details_url movieId) MAX_RETRIES) = Inr (Some r1)"
    and "fst (fetchWithRetry (axios_get env) (credits_url movieId) MAX_RETRIES) = Inr (Some r2)"
    and "storage_fault env Movie_create_call = None"
    and "movieId \<notin> set (map movie_id (movies d @ concurrent_creates env))"
  shows "fst (sync_movie env d movieId) = Inr (movieDetails movieId (data r1))"
proof -
  have id: "movie_id (movieDetails movieId a) = movieId" for a
    by (simp add: movieDetails_def)
  from assms show ?thesis
    by (auto simp: sync_movie_def Movie_create_def Promise_all_def Let_def id
          split: prod.splits sum.splits option.splits)
qed

text \<open>The race: the key was taken while the fetches were under way.\<close>

lemma sync_movie_conflict:
  assumes "fst (fetchWithRetry (axios_get env) (details_url movieId) MAX_RETRIES) = Inr (Some r1)"
    and "fst (fetchWithRetry (axios_get env) (credits_url movieId) MAX_RETRIES) = Inr (Some r2)"
    and "storage_fault env Movie_create_call = None"
    and "movieId \<in> set (map movie_id (concurrent_creates env))"
  shows "fst (sync_movie env d movieId) = Inl duplicate_key"
proof -
  have id: "movie_id (movieDetails movieId a) = movieId" for a
    by (simp add: movieDetails_def)
  from assms show ?thesis
    by (auto simp: sync_movie_def Movie_create_def Promise_all_def Let_def id
          split: prod.splits sum.splits option.splits)
qed

lemma resolve_uncached:
  assumes "Movie_findById env d movieId = Inr None"
  shows "resolve env d movieId =
     (case fst (sync_movie env d movieId) of
        Inl apiError \<Rightarrow>
          Inr (Inl (Reply False (Message (''Failed to fetch movie from TMDB: '' @ message apiError))))
      | Inr created \<Rightarrow> Inr (Inr created),
      fst (snd (sync_movie env d movieId)), snd (snd (sync_movie env d movieId)))"
  using assms by (simp add: resolve_def split: prod.splits sum.splits)

lemma resolve_cached:
  assumes "Movie_findById env d movieId = Inr (Some m)"
  shows "resolve env d movieId = (Inr (Inr m), d, [])"
  using assms by (simp add: resolve_def)

lemma movie_id_movieDetails:
  "movie_id (movieDetails movieId a) = movieId"
  by (simp add: movieDetails_def)

lemma fetchWithRetry_first_answer:
  "request url 0 = Inr r \<Longrightarrow> fetchWithRetry request url MAX_RETRIES = (Inr (Some r), [Get url])"
  by (simp add: fetchWithRetry_def fetchWithRetry_from.simps MAX_RETRIES_def)

lemma fetchWithRetry_default_requests:
  "1 \<le> length (filter is_Get (snd (fetchWithRetry request url MAX_RETRIES)))
   \<and> length (filter is_Get (snd (fetchWithRetry request url MAX_RETRIES))) \<le> 3"
  using fetchWithRetry_from_requests [of 0 MAX_RETRIES request url]
  by (simp add: fetchWithRetry_def MAX_RETRIES_def)

lemma resolve_example:
  "resolve example_env empty_db ''693134'' =
     (Inr (Inr (movieDetails ''693134'' example_data)),
      \<lparr>movies = [movieDetails ''693134'' example_data], shows = [], next_show_id = 0\<rparr>,
      [(details_url ''693134'', [Get (details_url ''693134'')]),
       (credits_url ''693134'', [Get (credits_url ''693134'')])])"
  by (simp add: resolve_def sync_movie_def Movie_findById_def Movie_create_def Promise_all_def
        fetchWithRetry_first_answer movie_id_movieDetails example_env_def empty_db_def)

lemma findById_example:
  "Movie_findById example_env empty_db ''693134'' = Inr None"
  by (simp add: Movie_findById_def example_env_def empty_db_def)

text \<open>The answer of the inner \<open>catch\<close> to the error it caught.\<close>

lemma resolve_sync_failed:
  assumes "Movie_findById env d movieId = Inr None"
    and "fst (sync_movie env d movieId) = Inl e"
  shows "fst (resolve env d movieId)
           = Inr (Inl (Reply False (Message (''Failed to fetch movie from TMDB: '' @ message e))))
       \<and> movies (fst (snd (resolve env d movieId))) = movies d @ concurrent_creates env"
  using assms(2) by (simp add: resolve_uncached [OF assms(1)] sync_movie_movies)

text \<open>A rejected fetch is the error of the inner \<open>try\<close>.\<close>

lemma sync_movie_fetch_rejected:
  assumes "fst (fetchWithRetry (axios_get env) (details_url movieId) MAX_RETRIES) = Inl e1
           \<or> fst (fetchWithRetry (axios_get env) (credits_url movieId) MAX_RETRIES) = Inl e2"
  shows "\<exists>e. (fst (fetchWithRetry (axios_get env) (details_url movieId) MAX_RETRIES) = Inl e
              \<or> fst (fetchWithRetry (axios_get env) (credits_url movieId) MAX_RETRIES) = Inl e)
            \<and> fst (sync_movie env d movieId) = Inl e"
  using assms
  by (auto simp: sync_movie_def Promise_all_def Let_def split: prod.splits sum.splits)

text \<open>So is a create that storage rejects.\<close>

lemma sync_movie_create_rejected:
  assumes "fst (fetchWithRetry (axios_get env) (details_url movieId) MAX_RETRIES) = Inr (Some r1)"
    and "fst (fetchWithRetry (axios_get env) (credits_url movieId) MAX_RETRIES) = Inr (Some r2)"
    and "storage_fault env Movie_create_call = Some e"
  shows "fst (sync_movie env d movieId) = Inl e"
  using assms
  by (auto simp: sync_movie_def Movie_create_def Promise_all_def Let_def
        split: prod.splits sum.splits option.splits)

text \<open>
  C1, as the code has it. A movie that is stored is returned as stored, with no fetch.
  For a movie that is not stored, \<open>fetchWithRetry\<close> is called exactly once for the
  details and once for the credits, each call making one to three requests. When both
  calls answer, storage accepts the create and no other request has taken the key, the
  handler adds exactly one Movie to storage, the normalized details, and goes on with
  it; a second resolve of the same id then finds it and fetches nothing. When a fetch is
  rejected, or when storage is at fault at the create, it adds no Movie and answers
  \<open>success: false\<close> with a message that ends in the message of the error. It adds a
  Movie in no case but the first.
\<close>

theorem resolve_fetch_or_reuse:
  "(Movie_findById env d movieId = Inr (Some m) \<longrightarrow> resolve env d movieId = (Inr (Inr m), d, []))
   \<and> (Movie_findById env d movieId = Inr None \<longrightarrow>
        map fst (snd (snd (resolve env d movieId))) = [details_url movieId, credits_url movieId]
        \<and> (\<forall>f \<in> set (snd (snd (resolve env d movieId))).
              1 \<le> length (filter is_Get (snd f)) \<and> length (filter is_Get (snd f)) \<le> 3)
        \<and> movies (fst (snd (resolve env d movieId))) =
            (case fst (resolve env d movieId) of
               Inr (Inr created) \<Rightarrow> movies d @ concurrent_creates env @ [created]
             | _ \<Rightarrow> movies d @ concurrent_creates env)
        \<and> (\<forall>created. fst (resolve env d movieId) = Inr (Inr created) \<longrightarrow>
              resolve env (fst (snd (resolve env d movieId))) movieId
                = (Inr (Inr created), fst (snd (resolve env d movieId)), []))
        \<and> (\<forall>created. fst (resolve env d movieId) = Inr (Inr created) \<longrightarrow>
              (\<exists>r1 r2.
                 fst (fetchWithRetry (axios_get env) (details_url movieId) MAX_RETRIES)
                   = Inr (Some r1)
               \<and> fst (fetchWithRetry (axios_get env) (credits_url movieId) MAX_RETRIES)
                   = Inr (Some r2)
               \<and> storage_fault env Movie_create_call = None
               \<and> movieId \<notin> set (map movie_id (concurrent_creates env))
               \<and> created = movieDetails movieId (data r1)))
        \<and> (fst (fetchWithRetry (axios_get env) (details_url movieId) MAX_RETRIES) = Inl e1
             \<or> fst (fetchWithRetry (axios_get env) (credits_url movieId) MAX_RETRIES) = Inl e2
            \<longrightarrow> (\<exists>e. (fst (fetchWithRetry (axios_get env) (details_url movieId) MAX_RETRIES) = Inl e
                       \<or> fst (fetchWithRetry (axios_get env) (credits_url movieId) MAX_RETRIES)
                           = Inl e)
                     \<and> fst (resolve env d movieId)
                         = Inr (Inl (Reply False
                             (Message (''Failed to fetch movie from TMDB: '' @ message e)))))
                \<and> movies (fst (snd (resolve env d movieId))) = movies d @ concurrent_creates env)
        \<and> (fst (fetchWithRetry (axios_get env) (details_url movieId) MAX_RETRIES) = Inr (Some r1)
             \<and> fst (fetchWithRetry (axios_get env) (credits_url movieId) MAX_RETRIES)
                 = Inr (Some r2)
             \<and> storage_fault env Movie_create_call = Some e3
            \<longrightarrow> fst (resolve env d movieId)
                  = Inr (Inl (Reply False
                      (Message (''Failed to fetch movie from TMDB: '' @ message e3))))
                \<and> movies (fst (snd (resolve env d movieId))) = movies d @ concurrent_creates env))
   \<and> (Movie_findById env d movieId = Inr None
        \<and> fst (fetchWithRetry (axios_get env) (details_url movieId) MAX_RETRIES) = Inr (Some r1)
        \<and> fst (fetchWithRetry (axios_get env) (credits_url movieId) MAX_RETRIES) = Inr (Some r2)
        \<and> storage_fault env Movie_create_call = None
        \<and> movieId \<notin> set (map movie_id (concurrent_creates env))
       \<longrightarrow> fst (resolve env d movieId) = Inr (Inr (movieDetails movieId (data r1)))
         \<and> movies (fst (snd (resolve env d movieId)))
             = movies d @ concurrent_creates env @ [movieDetails movieId (data r1)])"
proof (intro conjI impI)
  assume "Movie_findById env d movieId = Inr (Some m)"
  then show "resolve env d movieId = (Inr (Inr m), d, [])"
    by (rule resolve_cached)
next
  assume nf: "Movie_findById env d movieId = Inr None"
  show "map fst (snd (snd (resolve env d movieId))) = [details_url movieId, credits_url movieId]"
    by (simp add: resolve_uncached [OF nf] sync_movie_fetches)
next
  assume nf: "Movie_findById env d movieId = Inr None"
  show "\<forall>f \<in> set (snd (snd (resolve env d movieId))).
          1 \<le> length (filter is_Get (snd f)) \<and> length (filter is_Get (snd f)) \<le> 3"
    using fetchWithRetry_default_requests [of "axios_get env" "details_url movieId"]
      fetchWithRetry_default_requests [of "axios_get env" "credits_url movieId"]
    by (simp add: resolve_uncached [OF nf] sync_movie_fetches)
next
  assume nf: "Movie_findById env d movieId = Inr None"
  show "movies (fst (snd (resolve env d movieId))) =
          (case fst (resolve env d movieId) of
             Inr (Inr created) \<Rightarrow> movies d @ concurrent_creates env @ [created]
           | _ \<Rightarrow> movies d @ concurrent_creates env)"
    by (simp add: resolve_uncached [OF nf] sync_movie_movies split: sum.splits)
next
  assume nf: "Movie_findById env d movieId = Inr None"
  show "\<forall>created. fst (resolve env d movieId) = Inr (Inr created) \<longrightarrow>
          resolve env (fst (snd (resolve env d movieId))) movieId
            = (Inr (Inr created), fst (snd (resolve env d movieId)), [])"
  proof (intro allI impI)
    fix created
    assume ok: "fst (resolve env d movieId) = Inr (Inr created)"
    then have sync: "fst (sync_movie env d movieId) = Inr created"
      by (simp add: resolve_uncached [OF nf] split: sum.splits)
    from nf have nofault: "storage_fault env Movie_findById_call = None"
      by (simp add: Movie_findById_def split: option.splits)
    from sync_movie_created [OF sync] obtain r1 :: response where
      created: "created = movieDetails movieId (data r1)" and
      fresh: "movieId \<notin> set (map movie_id (movies d @ concurrent_creates env))"
      by blast
    have "find (\<lambda>m. movie_id m = movieId) ((movies d @ concurrent_creates env) @ [created]) = Some created"
      using fresh created by (intro find_snoc_new) (auto simp: movie_id_movieDetails)
    then have "Movie_findById env (fst (snd (resolve env d movieId))) movieId = Inr (Some created)"
      using sync nofault
      by (simp add: Movie_findById_def resolve_uncached [OF nf] sync_movie_movies)
    then show "resolve env (fst (snd (resolve env d movieId))) movieId
                 = (Inr (Inr created), fst (snd (resolve env d movieId)), [])"
      by (rule resolve_cached)
  qed
next
  assume nf: "Movie_findById env d movieId = Inr None"
  show "\<forall>created. fst (resolve env d movieId) = Inr (Inr created) \<longrightarrow>
          (\<exists>r1 r2.
             fst (fetchWithRetry (axios_get env) (details_url movieId) MAX_RETRIES) = Inr (Some r1)
           \<and> fst (fetchWithRetry (axios_get env) (credits_url movieId) MAX_RETRIES) = Inr (Some r2)
           \<and> storage_fault env Movie_create_call = None
           \<and> movieId \<notin> set (map movie_id (concurrent_creates env))
           \<and> created = movieDetails movieId (data r1))"
  proof (intro allI impI)
    fix created
    assume "fst (resolve env d movieId) = Inr (Inr created)"
    then have sync: "fst (sync_movie env d movieId) = Inr created"
      by (simp add: resolve_uncached [OF nf] split: sum.splits)
    then show "\<exists>r1 r2.
             fst (fetchWithRetry (axios_get env) (details_url movieId) MAX_RETRIES) = Inr (Some r1)
           \<and> fst (fetchWithRetry (axios_get env) (credits_url movieId) MAX_RETRIES) = Inr (Some r2)
           \<and> storage_fault env Movie_create_call = None
           \<and> movieId \<notin> set (map movie_id (concurrent_creates env))
           \<and> created = movieDetails movieId (data r1)"
      by (auto simp: sync_movie_def Movie_create_def Promise_all_def Let_def
            movie_id_movieDetails
            split: prod.splits sum.splits option.splits if_splits)
  qed
next
  assume nf: "Movie_findById env d movieId = Inr None"
  assume rejected:
    "fst (fetchWithRetry (axios_get env) (details_url movieId) MAX_RETRIES) = Inl e1
     \<or> fst (fetchWithRetry (axios_get env) (credits_url movieId) MAX_RETRIES) = Inl e2"
  from sync_movie_fetch_rejected [OF rejected, of d] obtain e where
    which: "fst (fetchWithRetry (axios_get env) (details_url movieId) MAX_RETRIES) = Inl e
            \<or> fst (fetchWithRetry (axios_get env) (credits_url movieId) MAX_RETRIES) = Inl e" and
    sync: "fst (sync_movie env d movieId) = Inl e"
    by blast
  from which resolve_sync_failed [OF nf sync, THEN conjunct1]
  show "\<exists>e. (fst (fetchWithRetry (axios_get env) (details_url movieId) MAX_RETRIES) = Inl e
              \<or> fst (fetchWithRetry (axios_get env) (credits_url movieId) MAX_RETRIES) = Inl e)
            \<and> fst (resolve env d movieId)
                = Inr (Inl (Reply False
                    (Message (''Failed to fetch movie from TMDB: '' @ message e))))"
    by (intro exI [of _ e] conjI)
  from resolve_sync_failed [OF nf sync, THEN conjunct2]
  show "movies (fst (snd (resolve env d movieId))) = movies d @ concurrent_creates env" .
next
  assume nf: "Movie_findById env d movieId = Inr None"
  assume h: "fst (fetchWithRetry (axios_get env) (details_url movieId) MAX_RETRIES) = Inr (Some r1)
             \<and> fst (fetchWithRetry (axios_get env) (credits_url movieId) MAX_RETRIES)
                 = Inr (Some r2)
             \<and> storage_fault env Movie_create_call = Some e3"
  then have sync: "fst (sync_movie env d movieId) = Inl e3"
    by (intro sync_movie_create_rejected [of env movieId r1 r2]) simp_all
  from resolve_sync_failed [OF nf sync, THEN conjunct1]
  show "fst (resolve env d movieId)
          = Inr (Inl (Reply False
              (Message (''Failed to fetch movie from TMDB: '' @ message e3))))" .
  from resolve_sync_failed [OF nf sync, THEN conjunct2]
  show "movies (fst (snd (resolve env d movieId))) = movies d @ concurrent_creates env" .
next
  assume h: "Movie_findById env d movieId = Inr None
        \<and> fst (fetchWithRetry (axios_get env) (details_url movieId) MAX_RETRIES) = Inr (Some r1)
        \<and> fst (fetchWithRetry (axios_get env) (credits_url movieId) MAX_RETRIES) = Inr (Some r2)
        \<and> storage_fault env Movie_create_call = None
        \<and> movieId \<notin> set (map movie_id (concurrent_creates env))"
  then have nf: "Movie_findById env d movieId = Inr None" by simp
  then have "movieId \<notin> set (map movie_id (movies d))"
    by (simp add: Movie_findById_def find_None_ids split: option.splits)
  with h have sync: "fst (sync_movie env d movieId) = Inr (movieDetails movieId (data r1))"
    by (intro sync_movie_succeeds [of env movieId r1 r2]) auto
  then show "fst (resolve env d movieId) = Inr (Inr (movieDetails movieId (data r1)))"
    by (simp add: resolve_uncached [OF nf])
  from sync show "movies (fst (snd (resolve env d movieId)))
             = movies d @ concurrent_creates env @ [movieDetails movieId (data r1)]"
    by (simp add: resolve_uncached [OF nf] sync_movie_movies)
qed

theorem resolve_fetch_or_reuse_witness:
  "Movie_findById example_env empty_db ''693134'' = Inr None
   \<and> map fst (snd (snd (resolve example_env empty_db ''693134'')))
       = [details_url ''693134'', credits_url ''693134'']
   \<and> movies (fst (snd (resolve example_env empty_db ''693134'')))
       = [movieDetails ''693134'' example_data]
   \<and> Movie_findById example_env (fst (snd (resolve example_env empty_db ''693134''))) ''693134''
       = Inr (Some (movieDetails ''693134'' example_data))
   \<and> resolve example_env (fst (snd (resolve example_env empty_db ''693134''))) ''693134''
       = (Inr (Inr (movieDetails ''693134'' example_data)),
          fst (snd (resolve example_env empty_db ''693134'')), [])"
proof -
  note t = resolve_fetch_or_reuse [of example_env empty_db "''693134''"]
  note uncached = t [THEN conjunct2, THEN conjunct1, THEN mp, OF findById_example]
  have stored: "Movie_findById example_env (fst (snd (resolve example_env empty_db ''693134'')))
                  ''693134'' = Inr (Some (movieDetails ''693134'' example_data))"
    unfolding resolve_example
    by (simp add: Movie_findById_def movie_id_movieDetails example_env_def)
  have all_movies: "movies (fst (snd (resolve example_env empty_db ''693134'')))
                      = [movieDetails ''693134'' example_data]"
    by (simp add: resolve_example)
  note again = resolve_fetch_or_reuse
      [of example_env "fst (snd (resolve example_env empty_db ''693134''))" "''693134''"
          "movieDetails ''693134'' example_data", THEN conjunct1, THEN mp, OF stored]
  show ?thesis
    by (rule conjI [OF findById_example conjI [OF uncached [THEN conjunct1]
          conjI [OF all_movies conjI [OF stored again]]]])
qed

text \<open>
  The claim as it was stated fails where the catalog rejects every request: the movie is
  not stored, the two fetches are made, and no Movie is persisted.
\<close>

theorem resolve_persists_nothing_when_fetch_fails:
  "Movie_findById failing_env empty_db ''693134'' = Inr None
   \<and> map fst (snd (snd (resolve failing_env empty_db ''693134'')))
       = [details_url ''693134'', credits_url ''693134'']
   \<and> movies (fst (snd (resolve failing_env empty_db ''693134''))) = []
   \<and> fst (resolve failing_env empty_db ''693134'')
       = Inr (Inl (Reply False (Message
           ''Failed to fetch movie from TMDB: Request failed with status code 404'')))"
  by (simp add: resolve_def sync_movie_def Movie_findById_def Promise_all_def
        fetchWithRetry_def fetchWithRetry_from.simps MAX_RETRIES_def
        failing_env_def example_env_def empty_db_def)

text \<open>
  C9. When \<open>addShow\<close> has synchronized a movie that was not stored, the Movie read back
  from storage under that id is the one it created, and it agrees with the details
  response field by field: every property is the response's own value, but the tagline,
  which is the empty string when the response has none and the response's otherwise.
\<close>

theorem movie_round_trip:
  assumes "Movie_findById env d movieId = Inr None"
    and "resolve env d movieId = (Inr (Inr created), d', fetches)"
  shows "\<exists>r. fst (fetchWithRetry (axios_get env) (details_url movieId) MAX_RETRIES) = Inr (Some r)
     \<and> Movie_findById env d' movieId = Inr (Some created)
     \<and> movie_id created = movieId
     \<and> title created = api_title (data r)
     \<and> overview created = api_overview (data r)
     \<and> poster_path created = api_poster_path (data r)
     \<and> backdrop_path created = api_backdrop_path (data r)
     \<and> genres created = api_genres (data r)
     \<and> casts created = api_casts (data r)
     \<and> release_date created = api_release_date (data r)
     \<and> original_language created = api_original_language (data r)
     \<and> tagline created = (case api_tagline (data r) of None \<Rightarrow> [] | Some t \<Rightarrow> t)
     \<and> vote_average created = api_vote_average (data r)
     \<and> runtime created = api_runtime (data r)"
proof -
  note nf = assms(1)
  from assms(2) have sync: "fst (sync_movie env d movieId) = Inr created"
    and d': "d' = fst (snd (sync_movie env d movieId))"
    by (simp_all add: resolve_uncached [OF nf] split: sum.splits)
  from nf have nofault: "storage_fault env Movie_findById_call = None"
    by (simp add: Movie_findById_def split: option.splits)
  from sync_movie_created [OF sync] obtain r :: response where
    r: "fst (fetchWithRetry (axios_get env) (details_url movieId) MAX_RETRIES) = Inr (Some r)" and
    created: "created = movieDetails movieId (data r)" and
    fresh: "movieId \<notin> set (map movie_id (movies d @ concurrent_creates env))"
    by blast
  have "find (\<lambda>m. movie_id m = movieId) ((movies d @ concurrent_creates env) @ [created])
          = Some created"
    using fresh created by (intro find_snoc_new) (auto simp: movie_id_movieDetails)
  then have reread: "Movie_findById env d' movieId = Inr (Some created)"
    using sync nofault by (simp add: Movie_findById_def d' sync_movie_movies)
  have fields: "movie_id created = movieId
     \<and> title created = api_title (data r)
     \<and> overview created = api_overview (data r)
     \<and> poster_path created = api_poster_path (data r)
     \<and> backdrop_path created = api_backdrop_path (data r)
     \<and> genres created = api_genres (data r)
     \<and> casts created = api_casts (data r)
     \<and> release_date created = api_release_date (data r)
     \<and> original_language created = api_original_language (data r)
     \<and> tagline created = (case api_tagline (data r) of None \<Rightarrow> [] | Some t \<Rightarrow> t)
     \<and> vote_average created = api_vote_average (data r)
     \<and> runtime created = api_runtime (data r)"
    by (simp add: created movieDetails_def split: option.splits)
  from r reread fields show ?thesis
    by (intro exI [of _ r] conjI) simp_all
qed

theorem movie_round_trip_witness:
  "Movie_findById example_env empty_db ''693134'' = Inr None
   \<and> (\<exists>r. fst (fetchWithRetry (axios_get example_env) (details_url ''693134'') MAX_RETRIES)
             = Inr (Some r)
     \<and> Movie_findById example_env
          \<lparr>movies = [movieDetails ''693134'' example_data], shows = [], next_show_id = 0\<rparr>
          ''693134'' = Inr (Some (movieDetails ''693134'' example_data))
     \<and> movie_id (movieDetails ''693134'' example_data) = ''693134''
     \<and> title (movieDetails ''693134'' example_data) = api_title (data r)
     \<and> overview (movieDetails ''693134'' example_data) = api_overview (data r)
     \<and> poster_path (movieDetails ''693134'' example_data) = api_poster_path (data r)
     \<and> backdrop_path (movieDetails ''693134'' example_data) = api_backdrop_path (data r)
     \<and> genres (movieDetails ''693134'' example_data) = api_genres (data r)
     \<and> casts (movieDetails ''693134'' example_data) = api_casts (data r)
     \<and> release_date (movieDetails ''693134'' example_data) = api_release_date (data r)
     \<and> original_language (movieDetails ''693134'' example_data) = api_original_language (data r)
     \<and> tagline (movieDetails ''693134'' example_data)
         = (case api_tagline (data r) of None \<Rightarrow> [] | Some t \<Rightarrow> t)
     \<and> vote_average (movieDetails ''693134'' example_data) = api_vote_average (data r)
     \<and> runtime (movieDetails ''693134'' example_data) = api_runtime (data r))"
  by (rule conjI [OF findById_example movie_round_trip [OF findById_example resolve_example]])

text \<open>
  What \<open>addShow\<close> does when another request creates the movie while this one awaits
  the catalog: its own create is rejected for the duplicate key inside the inner \<open>try\<close>,
  and the inner \<open>catch\<close> answers. No Movie and no Show is written by it.
\<close>

lemma addShow_create_conflict:
  assumes "Movie_findById env d movieId = Inr None"
    and "fst (fetchWithRetry (axios_get env) (details_url movieId) MAX_RETRIES) = Inr (Some r1)"
    and "fst (fetchWithRetry (axios_get env) (credits_url movieId) MAX_RETRIES) = Inr (Some r2)"
    and "storage_fault env Movie_create_call = None"
    and "movieId \<in> set (map movie_id (concurrent_creates env))"
  shows "fst (addShow env d (Some (movieId, showsInput, price)))
           = Responded (Reply False
               (Message (''Failed to fetch movie from TMDB: '' @ message duplicate_key)))
       \<and> movies (fst (snd (addShow env d (Some (movieId, showsInput, price)))))
           = movies d @ concurrent_creates env
       \<and> shows (fst (snd (addShow env d (Some (movieId, showsInput, price))))) = shows d"
proof -
  have sync: "fst (sync_movie env d movieId) = Inl duplicate_key"
    using assms(2-5) by (rule sync_movie_conflict)
  have "addShow env d (Some (movieId, showsInput, price)) =
          (Responded (Reply False
               (Message (''Failed to fetch movie from TMDB: '' @ message duplicate_key))),
           fst (snd (sync_movie env d movieId)), snd (snd (sync_movie env d movieId)))"
    by (simp add: addShow_def addShow_try_def resolve_uncached [OF assms(1)] sync catch_block_def)
  then show ?thesis
    using sync by (simp add: sync_movie_movies sync_movie_shows)
qed

lemma findById_racing:
  "Movie_findById racing_env empty_db ''693134'' = Inr None"
  by (simp add: Movie_findById_def racing_env_def example_env_def empty_db_def)

lemma fetch_racing:
  "fst (fetchWithRetry (axios_get racing_env) url MAX_RETRIES) = Inr (Some \<lparr>data = example_data\<rparr>)"
  by (simp add: fetchWithRetry_first_answer racing_env_def example_env_def)

lemma create_racing:
  "storage_fault racing_env Movie_create_call = None
   \<and> ''693134'' \<in> set (map movie_id (concurrent_creates racing_env))"
  by (simp add: racing_env_def example_env_def movie_id_movieDetails)

text \<open>
  C6. The code at the race: the movie is not stored when the request looks it up, the
  catalog answers both fetches, and another request has created the movie by the time
  of \<open>Movie.create\<close>. The claim wants the duplicate key surfaced as a conflict, a
  condition of its own. The handler does not crash, but its answer is the one written
  for a catalog failure, \<open>Failed to fetch movie from TMDB\<close>, though no fetch failed:
  \<open>Movie.create\<close> stands inside the \<open>try\<close> whose \<open>catch\<close> is written for the two
  fetches. A storage error outside that \<open>try\<close> (here the lookup, on storage without a
  connection) reaches the outer \<open>catch\<close> and is answered with its own message.
\<close>

theorem addShow_conflict_answered_as_failed_fetch:
  "Movie_findById racing_env empty_db ''693134'' = Inr None
   \<and> fst (fetchWithRetry (axios_get racing_env) (details_url ''693134'') MAX_RETRIES)
       = Inr (Some \<lparr>data = example_data\<rparr>)
   \<and> fst (fetchWithRetry (axios_get racing_env) (credits_url ''693134'') MAX_RETRIES)
       = Inr (Some \<lparr>data = example_data\<rparr>)
   \<and> fst (addShow racing_env empty_db example_request)
       = Responded (Reply False
           (Message ''Failed to fetch movie from TMDB: E11000 duplicate key error''))
   \<and> fst (addShow disconnected_env empty_db example_request)
       = Responded (Reply False (Message ''connection closed''))"
proof -
  have conflict: "fst (addShow racing_env empty_db example_request)
       = Responded (Reply False
           (Message ''Failed to fetch movie from TMDB: E11000 duplicate key error''))"
    using addShow_create_conflict
      [OF findById_racing fetch_racing fetch_racing create_racing [THEN conjunct1]
          create_racing [THEN conjunct2], THEN conjunct1]
    by (simp add: example_request_def duplicate_key_def)
  have lookup: "fst (addShow disconnected_env empty_db example_request)
       = Responded (Reply False (Message ''connection closed''))"
    by (simp add: addShow_def addShow_try_def resolve_def Movie_findById_def catch_block_def
          disconnected_env_def example_request_def)
  show ?thesis
    by (rule conjI [OF findById_racing conjI [OF fetch_racing conjI [OF fetch_racing
          conjI [OF conflict lookup]]]])
qed

section \<open>Every handler answers\<close>












section \<open>Properties of getShows\<close>

lemma set_foldl_Set_add:
  "set (foldl Set_add acc xs) = set acc \<union> set xs"
  by (induction xs arbitrary: acc) (auto simp: Set_add_def)

lemma distinct_foldl_Set_add:
  "distinct acc \<Longrightarrow> distinct (foldl Set_add acc xs)"
  by (induction xs arbitrary: acc) (auto simp: Set_add_def)

lemma set_Set_from:
  "set (Set_from xs) = set xs"
  by (simp add: Set_from_def set_foldl_Set_add)

lemma distinct_Set_from:
  "distinct (Set_from xs)"
  by (simp add: Set_from_def distinct_foldl_Set_add)

text \<open>With the identifier as primary key, a stored movie is found under its own id only.\<close>

lemma find_SomeD:
  "find P xs = Some x \<Longrightarrow> x \<in> set xs \<and> P x"
  by (induction xs) (auto split: if_splits)

lemma find_by_primary_key:
  "distinct (map movie_id ms) \<Longrightarrow> m \<in> set ms \<Longrightarrow>
     (find (\<lambda>m'. movie_id m' = k) ms = Some m) = (k = movie_id m)"
  by (induction ms) (auto simp: image_iff dest: find_SomeD)

lemma count_list_distinct:
  "distinct xs \<Longrightarrow> count_list xs x = (if x \<in> set xs then 1 else 0)"
  by (induction xs) auto

text \<open>Creating a Movie keeps the identifiers of storage distinct.\<close>

lemma Movie_create_keeps_primary_key:
  "distinct (map movie_id (movies d)) \<Longrightarrow> Movie_create env d doc = Inr (created, d')
     \<Longrightarrow> distinct (map movie_id (movies d'))"
  by (auto simp: Movie_create_def split: option.splits if_splits)

text \<open>
  C4. Over a storage whose movies have distinct identifiers, \<open>getShows\<close> lists no value
  twice, and it lists a stored movie exactly when some stored show of that movie has
  \<open>showDateTime >= now\<close>: once if the movie has one or several upcoming shows, not at
  all if all its shows are in the past.
\<close>

theorem getShows_each_upcoming_movie_once:
  assumes "storage_fault env Show_find_call = None"
    and "distinct (map movie_id (movies d))"
  shows "\<exists>listed. getShows env d = Responded (Reply True (Shows listed))
     \<and> distinct listed
     \<and> (\<forall>m \<in> set (movies d).
           (Some m \<in> set listed)
             = (\<exists>s \<in> set (shows d). movie s = movie_id m \<and> now env \<le> showDateTime s))
     \<and> (\<forall>m \<in> set (movies d).
           count_list listed (Some m)
             = (if \<exists>s \<in> set (shows d). movie s = movie_id m \<and> now env \<le> showDateTime s
                then 1 else 0))"
proof -
  define listed where
    "listed = Set_from (map (populate d)
                (sort_key showDateTime (filter (\<lambda>s. now env \<le> showDateTime s) (shows d))))"
  have answer: "getShows env d = Responded (Reply True (Shows listed))"
    using assms(1)
    by (simp add: getShows_def getShows_try_def Show_find_def catch_block_def listed_def)
  have dist: "distinct listed"
    by (simp add: listed_def distinct_Set_from)
  have member: "(Some m \<in> set listed)
             = (\<exists>s \<in> set (shows d). movie s = movie_id m \<and> now env \<le> showDateTime s)"
    if "m \<in> set (movies d)" for m
  proof -
    have "(Some m \<in> set listed)
            = (\<exists>s \<in> set (shows d). now env \<le> showDateTime s \<and> populate d s = Some m)"
      by (auto simp: listed_def set_Set_from image_iff)
    also have "\<dots> = (\<exists>s \<in> set (shows d). movie s = movie_id m \<and> now env \<le> showDateTime s)"
      using find_by_primary_key [OF assms(2) that] by (auto simp: populate_def)
    finally show ?thesis .
  qed
  have count: "count_list listed (Some m)
             = (if \<exists>s \<in> set (shows d). movie s = movie_id m \<and> now env \<le> showDateTime s
                then 1 else 0)"
    if "m \<in> set (movies d)" for m
    using member [OF that] by (simp add: count_list_distinct [OF dist])
  from answer dist member count show ?thesis
    by (intro exI [of _ listed] conjI ballI)
qed

lemma getShows_two_movies:
  "getShows example_env two_movies_db
     = Responded (Reply True (Shows [Some (movieDetails ''693134'' example_data)]))"
  by (simp add: getShows_def getShows_try_def Show_find_def catch_block_def populate_def
        Set_from_def Set_add_def movie_id_movieDetails past_movie_def
        example_env_def two_movies_db_def)

theorem getShows_each_upcoming_movie_once_witness:
  "storage_fault example_env Show_find_call = None
   \<and> distinct (map movie_id (movies two_movies_db))
   \<and> (\<exists>listed. getShows example_env two_movies_db = Responded (Reply True (Shows listed))
        \<and> distinct listed
        \<and> count_list listed (Some (movieDetails ''693134'' example_data)) = 1
        \<and> count_list listed (Some past_movie) = 0)"
proof -
  have fault: "storage_fault example_env Show_find_call = None"
    by (simp add: example_env_def)
  have keys: "distinct (map movie_id (movies two_movies_db))"
    by (simp add: two_movies_db_def past_movie_def movie_id_movieDetails)
  from getShows_each_upcoming_movie_once [OF fault keys] obtain listed where
    answer: "getShows example_env two_movies_db = Responded (Reply True (Shows listed))" and
    dist: "distinct listed" and
    count: "\<forall>m \<in> set (movies two_movies_db).
           count_list listed (Some m)
             = (if \<exists>s \<in> set (shows two_movies_db).
                     movie s = movie_id m \<and> now example_env \<le> showDateTime s
                then 1 else 0)"
    by blast
  have first: "count_list listed (Some (movieDetails ''693134'' example_data)) = 1"
    using count
    by (simp add: two_movies_db_def past_movie_def movie_id_movieDetails example_env_def)
  have second: "count_list listed (Some past_movie) = 0"
    using count
    by (simp add: two_movies_db_def past_movie_def movie_id_movieDetails example_env_def)
  from answer dist first second fault keys show ?thesis
    by blast
qed

section \<open>Properties of getShow\<close>

lemma keys_dateTime_push:
  "map fst (dateTime_push k entry dateTime) = Set_add (map fst dateTime) k"
proof (induction dateTime)
  case Nil
  show ?case by (simp add: Set_add_def)
next
  case (Cons kv rest)
  obtain k' entries where kv: "kv = (k', entries)" by (cases kv)
  show ?case
  proof (cases "k = k'")
    case True
    then show ?thesis by (simp add: kv Set_add_def)
  next
    case False
    then show ?thesis
      using Cons.IH by (simp add: kv Set_add_def)
  qed
qed

lemma map_of_dateTime_push:
  "map_of (dateTime_push k entry dateTime) k' =
     (if k' = k then Some ((case map_of dateTime k of None \<Rightarrow> [] | Some entries \<Rightarrow> entries) @ [entry])
      else map_of dateTime k')"
  by (induction dateTime) auto

text \<open>The keys of the grouping are the dates of the shows, in the order of their first show.\<close>

lemma keys_group_shows:
  "map fst (group_shows ss dateTime) = foldl Set_add (map fst dateTime) (map date_key ss)"
  by (induction ss arbitrary: dateTime) (simp_all add: keys_dateTime_push date_key_def)

text \<open>Under a date are the entries of the shows of that date, in the order of the shows.\<close>

lemma map_of_group_shows:
  "map_of (group_shows ss dateTime) k =
     (if k \<in> date_key ` set ss
      then Some ((case map_of dateTime k of None \<Rightarrow> [] | Some entries \<Rightarrow> entries)
                  @ map slot_of (filter (\<lambda>s. date_key s = k) ss))
      else map_of dateTime k)"
proof (induction ss arbitrary: dateTime)
  case Nil
  show ?case by simp
next
  case (Cons s ss)
  have step: "group_shows (s # ss) dateTime
                = group_shows ss (dateTime_push (date_key s) (slot_of s) dateTime)"
    by (simp add: date_key_def slot_of_def)
  show ?case
    unfolding step Cons.IH map_of_dateTime_push
    by (auto simp: filter_empty_conv image_iff split: option.splits)
qed

lemma date_key_is_the_utc_day:
  "showDateTime a div msPerDay = showDateTime b div msPerDay \<Longrightarrow> date_key a = date_key b"
  by (simp add: date_key_def iso_date_def)

lemma getShow_answer:
  assumes "storage_fault env Show_find_call = None"
    and "storage_fault env Movie_findById_call = None"
  shows "getShow env d movieId =
           Responded (Reply True (Show_detail (find (\<lambda>m. movie_id m = movieId) (movies d))
                                    (group_shows (upcoming env d movieId) [])))"
  using assms
  by (simp add: getShow_def getShow_try_def Show_find_def Movie_findById_def catch_block_def
        upcoming_def)

text \<open>
  What \<open>getShow\<close> computes: the movie, and its upcoming shows (\<open>showDateTime >= now\<close>)
  grouped by the UTC calendar date of \<open>showDateTime\<close>, one key for each date that
  occurs, in the order of first occurrence, and under the key the \<open>showDateTime\<close> and
  the identifier of every show of that date. The entries of a date stand in the order
  in which storage returned the shows: ascending by time if the shows came so.
\<close>

lemma getShow_groups_by_date:
  assumes "storage_fault env Show_find_call = None"
    and "storage_fault env Movie_findById_call = None"
  shows "\<exists>dateTime.
       getShow env d movieId =
         Responded (Reply True (Show_detail (find (\<lambda>m. movie_id m = movieId) (movies d)) dateTime))
     \<and> distinct (map fst dateTime)
     \<and> map fst dateTime = Set_from (map date_key (upcoming env d movieId))
     \<and> (\<forall>k. map_of dateTime k =
              (if k \<in> date_key ` set (upcoming env d movieId)
               then Some (map slot_of (filter (\<lambda>s. date_key s = k) (upcoming env d movieId)))
               else None))
     \<and> (sorted (map showDateTime (upcoming env d movieId)) \<longrightarrow>
          (\<forall>k entries. map_of dateTime k = Some entries \<longrightarrow> sorted (map slot_time entries)))"
proof -
  define dateTime where "dateTime = group_shows (upcoming env d movieId) []"
  have answer: "getShow env d movieId =
         Responded (Reply True (Show_detail (find (\<lambda>m. movie_id m = movieId) (movies d)) dateTime))"
    unfolding dateTime_def by (rule getShow_answer [OF assms])
  have keys: "map fst dateTime = Set_from (map date_key (upcoming env d movieId))"
    by (simp add: dateTime_def keys_group_shows Set_from_def)
  have dist: "distinct (map fst dateTime)"
    unfolding keys by (rule distinct_Set_from)
  have buckets: "\<forall>k. map_of dateTime k =
              (if k \<in> date_key ` set (upcoming env d movieId)
               then Some (map slot_of (filter (\<lambda>s. date_key s = k) (upcoming env d movieId)))
               else None)"
    by (simp add: dateTime_def map_of_group_shows)
  have ordered: "sorted (map slot_time entries)"
    if "sorted (map showDateTime (upcoming env d movieId))" and "map_of dateTime k = Some entries"
    for k entries
  proof -
    from that(2) buckets
    have "entries = map slot_of (filter (\<lambda>s. date_key s = k) (upcoming env d movieId))"
      by (simp split: if_splits)
    then have "map slot_time entries
                 = map showDateTime (filter (\<lambda>s. date_key s = k) (upcoming env d movieId))"
      by (simp add: slot_of_def comp_def)
    then show ?thesis
      using sorted_filter [OF that(1), of "\<lambda>s. date_key s = k"] by simp
  qed
  from ordered have ordered': "sorted (map showDateTime (upcoming env d movieId)) \<longrightarrow>
          (\<forall>k entries. map_of dateTime k = Some entries \<longrightarrow> sorted (map slot_time entries))"
    by blast
  show ?thesis
    by (rule exI [of _ dateTime])
       (rule conjI [OF answer conjI [OF dist conjI [OF keys conjI [OF buckets ordered']]]])
qed

lemma iso_date_examples:
  "iso_date 1714572000000 = ''2024-05-01''"
  "iso_date 1714586400000 = ''2024-05-01''"
  "iso_date 1714640400000 = ''2024-05-02''"
  by code_simp+

lemma getShow_two_movies:
  "getShow example_env two_movies_db ''693134'' =
     Responded (Reply True (Show_detail (Some (movieDetails ''693134'' example_data))
       [(''2024-05-01'', [\<lparr>slot_time = 1714572000000, showId = 0\<rparr>,
                         \<lparr>slot_time = 1714586400000, showId = 2\<rparr>]),
        (''2024-05-02'', [\<lparr>slot_time = 1714640400000, showId = 3\<rparr>])]))"
  by (simp add: getShow_def getShow_try_def Show_find_def Movie_findById_def catch_block_def
        iso_date_examples movie_id_movieDetails example_env_def two_movies_db_def)

lemma getShow_groups_by_date_example:
  "storage_fault example_env Show_find_call = None
   \<and> storage_fault example_env Movie_findById_call = None
   \<and> map showDateTime (upcoming example_env two_movies_db ''693134'')
       = [1714572000000, 1714586400000, 1714640400000]
   \<and> (\<exists>dateTime.
        getShow example_env two_movies_db ''693134'' =
          Responded (Reply True (Show_detail
            (find (\<lambda>m. movie_id m = ''693134'') (movies two_movies_db)) dateTime))
        \<and> map fst dateTime = [''2024-05-01'', ''2024-05-02'']
        \<and> map_of dateTime ''2024-05-01''
            = Some [\<lparr>slot_time = 1714572000000, showId = 0\<rparr>,
                    \<lparr>slot_time = 1714586400000, showId = 2\<rparr>]
        \<and> map_of dateTime ''2024-05-02'' = Some [\<lparr>slot_time = 1714640400000, showId = 3\<rparr>])"
proof -
  have f1: "storage_fault example_env Show_find_call = None"
    and f2: "storage_fault example_env Movie_findById_call = None"
    by (simp_all add: example_env_def)
  have up: "upcoming example_env two_movies_db ''693134'' =
      [\<lparr>movie = ''693134'', showDateTime = 1714572000000, showPrice = Fract 25 2,
        occupiedSeats = [], show_id = 0\<rparr>,
       \<lparr>movie = ''693134'', showDateTime = 1714586400000, showPrice = Fract 25 2,
        occupiedSeats = [], show_id = 2\<rparr>,
       \<lparr>movie = ''693134'', showDateTime = 1714640400000, showPrice = Fract 25 2,
        occupiedSeats = [], show_id = 3\<rparr>]"
    by (simp add: upcoming_def example_env_def two_movies_db_def)
  have times: "map showDateTime (upcoming example_env two_movies_db ''693134'')
       = [1714572000000, 1714586400000, 1714640400000]"
    by (simp add: up)
  from getShow_groups_by_date [OF f1 f2, of two_movies_db "''693134''"] obtain dateTime where
    answer: "getShow example_env two_movies_db ''693134'' =
          Responded (Reply True (Show_detail
            (find (\<lambda>m. movie_id m = ''693134'') (movies two_movies_db)) dateTime))" and
    keys: "map fst dateTime = Set_from (map date_key (upcoming example_env two_movies_db ''693134''))" and
    buckets: "\<forall>k. map_of dateTime k =
              (if k \<in> date_key ` set (upcoming example_env two_movies_db ''693134'')
               then Some (map slot_of (filter (\<lambda>s. date_key s = k)
                            (upcoming example_env two_movies_db ''693134'')))
               else None)"
    by blast
  have k: "map fst dateTime = [''2024-05-01'', ''2024-05-02'']"
    unfolding keys up
    by (simp add: Set_from_def Set_add_def date_key_def iso_date_examples)
  have b1: "map_of dateTime ''2024-05-01''
            = Some [\<lparr>slot_time = 1714572000000, showId = 0\<rparr>,
                    \<lparr>slot_time = 1714586400000, showId = 2\<rparr>]"
    unfolding buckets [rule_format] up
    by (simp add: date_key_def slot_of_def iso_date_examples)
  have b2: "map_of dateTime ''2024-05-02'' = Some [\<lparr>slot_time = 1714640400000, showId = 3\<rparr>]"
    unfolding buckets [rule_format] up
    by (simp add: date_key_def slot_of_def iso_date_examples)
  from answer k b1 b2 have "\<exists>dateTime.
        getShow example_env two_movies_db ''693134'' =
          Responded (Reply True (Show_detail
            (find (\<lambda>m. movie_id m = ''693134'') (movies two_movies_db)) dateTime))
        \<and> map fst dateTime = [''2024-05-01'', ''2024-05-02'']
        \<and> map_of dateTime ''2024-05-01''
            = Some [\<lparr>slot_time = 1714572000000, showId = 0\<rparr>,
                    \<lparr>slot_time = 1714586400000, showId = 2\<rparr>]
        \<and> map_of dateTime ''2024-05-02'' = Some [\<lparr>slot_time = 1714640400000, showId = 3\<rparr>]"
    by (intro exI [of _ dateTime] conjI)
  with f1 f2 times show ?thesis
    by (intro conjI)
qed

lemma evening_first_db_stored:
  "evening_first_db =
     \<lparr>movies = [movieDetails ''693134'' example_data],
      shows =
        [\<lparr>movie = ''693134'', showDateTime = 1714586400000, showPrice = Fract 25 2,
          occupiedSeats = [], show_id = 0\<rparr>,
         \<lparr>movie = ''693134'', showDateTime = 1714572000000, showPrice = Fract 25 2,
          occupiedSeats = [], show_id = 1\<rparr>],
      next_show_id = 2\<rparr>"
  unfolding evening_first_db_def evening_first_def addShow_def addShow_try_def
  by (simp add: resolve_example createShows_def showsToCreate_def Show_insertMany_def)
     (simp add: example_env_def)

text \<open>
  C5. The code on the storage that one \<open>addShow\<close> leaves when its times come latest
  first. The claim wants the entries of a date ascending by time. \<open>getShows\<close> sorts its
  query by \<open>showDateTime\<close>; the query of \<open>getShow\<close> has no sort, and the date holds the
  18:00 show before the 14:00 show. The grouping by date and the \<open>showDateTime\<close> and
  identifier of each entry are as the claim says.
\<close>

theorem getShow_bucket_in_storage_order:
  "getShow example_env evening_first_db ''693134'' =
     Responded (Reply True (Show_detail (Some (movieDetails ''693134'' example_data))
       [(''2024-05-01'', [\<lparr>slot_time = 1714586400000, showId = 0\<rparr>,
                         \<lparr>slot_time = 1714572000000, showId = 1\<rparr>])]))
   \<and> \<not> sorted [1714586400000, 1714572000000 :: int]"
  unfolding evening_first_db_stored
  by (simp add: getShow_def getShow_try_def Show_find_def Movie_findById_def catch_block_def
        iso_date_examples movie_id_movieDetails example_env_def)

text \<open>
  C7, as the code has it. For a movie that is not in storage \<open>getShow\<close> surfaces no
  error: it answers \<open>success: true\<close> with \<open>movie: null\<close> and the grouping of the upcoming
  shows stored under that id, the empty grouping when there are none.
\<close>

theorem getShow_unknown_movie:
  assumes "movieId \<notin> set (map movie_id (movies d))"
    and "storage_fault env Show_find_call = None"
    and "storage_fault env Movie_findById_call = None"
  shows "getShow env d movieId =
           Responded (Reply True (Show_detail None (group_shows (upcoming env d movieId) [])))
       \<and> (upcoming env d movieId = [] \<longrightarrow>
            getShow env d movieId = Responded (Reply True (Show_detail None [])))"
proof -
  from assms(1) have "find (\<lambda>m. movie_id m = movieId) (movies d) = None"
    by (simp add: find_None_ids)
  with getShow_answer [OF assms(2,3), of d movieId] show ?thesis
    by simp
qed

theorem getShow_unknown_movie_witness:
  "''1'' \<notin> set (map movie_id (movies empty_db))
   \<and> storage_fault example_env Show_find_call = None
   \<and> storage_fault example_env Movie_findById_call = None
   \<and> upcoming example_env empty_db ''1'' = []
   \<and> getShow example_env empty_db ''1'' = Responded (Reply True (Show_detail None []))"
proof -
  have absent: "''1'' \<notin> set (map movie_id (movies empty_db))"
    by (simp add: empty_db_def)
  have f1: "storage_fault example_env Show_find_call = None"
    and f2: "storage_fault example_env Movie_findById_call = None"
    by (simp_all add: example_env_def)
  have none: "upcoming example_env empty_db ''1'' = []"
    by (simp add: upcoming_def empty_db_def)
  note t = getShow_unknown_movie [OF absent f1 f2]
  from t [THEN conjunct2, THEN mp, OF none] absent f1 f2 none show ?thesis
    by (intro conjI)
qed

text \<open>
  The claim as it was stated fails: asked for a movie that storage does not hold, the
  handler reports success.
\<close>

theorem getShow_unknown_movie_reports_success:
  "''000000'' \<notin> set (map movie_id (movies two_movies_db))
   \<and> getShow example_env two_movies_db ''000000'' = Responded (Reply True (Show_detail None []))
   \<and> success (Reply True (Show_detail None []))"
  by (simp add: getShow_def getShow_try_def Show_find_def Movie_findById_def catch_block_def
        movie_id_movieDetails past_movie_def example_env_def two_movies_db_def)

end
